theory Spec2Isabelle
  imports Main
begin

section \<open>The Tailwind configuration descriptor of ui-bolt\<close>

text \<open>
  The repository is one file, \<^verbatim>\<open>tailwind.config.js\<close>, whose only statement is
  \<^verbatim>\<open>export default { ... }\<close>: an object literal built from string literals, array
  literals and nested object literals. The embedding keeps that literal as a value of a
  small datatype of JavaScript values, with an object literal as the list of its
  properties in the order and multiplicity in which they are written.
\<close>

subsection \<open>JavaScript values that occur in the literal\<close>

datatype js_value =
    JString string
  | JArray "js_value list"
  | JObject "(string \<times> js_value) list"

text \<open>
  The property names of an object literal as written, left to right, duplicates
  included. A string or an array literal writes no property names.
\<close>

fun literal_keys :: "js_value \<Rightarrow> string list" where
  "literal_keys (JObject ps) = map fst ps"
| "literal_keys (JString s) = []"
| "literal_keys (JArray xs) = []"

text \<open>
  The own property names of the object the literal evaluates to, as a set: a name
  written twice is one property. The enumeration order of JavaScript is not modelled.
\<close>

definition own_keys :: "js_value \<Rightarrow> string set" where
  "own_keys v = set (literal_keys v)"

text \<open>
  Reading an own property \<^verbatim>\<open>v[k]\<close> of an object literal. When a name is written
  twice the later definition overwrites the earlier one, so the lookup goes through
  the properties from the right. A name that is not written reads as \<^verbatim>\<open>undefined\<close>,
  which is \<open>None\<close> here; properties of strings and arrays are not modelled.
\<close>

fun get_prop :: "string \<Rightarrow> js_value \<Rightarrow> js_value option" where
  "get_prop k (JObject ps) = map_of (rev ps) k"
| "get_prop k (JString s) = None"
| "get_prop k (JArray xs) = None"

text \<open>
  A chain of property reads \<^verbatim>\<open>v.a.b.c\<close>. Reading a property of \<^verbatim>\<open>undefined\<close>
  throws in JavaScript; the chain is \<open>None\<close> from the first missing name on.
\<close>

fun get_path :: "string list \<Rightarrow> js_value \<Rightarrow> js_value option" where
  "get_path [] v = Some v"
| "get_path (k # ks) v = (case get_prop k v of None \<Rightarrow> None | Some w \<Rightarrow> get_path ks w)"

definition keys_at :: "string list \<Rightarrow> js_value \<Rightarrow> string set" where
  "keys_at path v = (case get_path path v of None \<Rightarrow> {} | Some w \<Rightarrow> own_keys w)"

subsection \<open>The default export\<close>

text \<open>
  \<^verbatim>\<open>export default { content: [...], theme: { extend: { ... } }, plugins: [] }\<close>,
  property by property as in the source (lines 2 to 20).
\<close>

definition default_export :: js_value where
  "default_export =
     JObject
       [(''content'', JArray [JString ''./index.html'', JString ''./src/**/*.{js,ts,jsx,tsx}'']),
        (''theme'',
         JObject
           [(''extend'',
             JObject
               [(''colors'',
                 JObject
                   [(''primary'', JString ''#FF5D2B''),
                    (''secondary'', JString ''#FF5D2B''),
                    (''background'', JString ''#171717'')]),
                (''boxShadow'',
                 JObject
                   [(''glow'', JString ''0 0 15px rgba(255, 93, 43, 0.3)'')]),
                (''animation'',
                 JObject
                   [(''pulse-slow'',
                     JString ''pulse 3s cubic-bezier(0.4, 0, 0.6, 1) infinite'')])])]),
        (''plugins'', JArray [])]"

subsection \<open>Every property name written in the literal\<close>

text \<open>
  All property names of a value, at any depth, in source order: the names of an object
  literal followed each by the names inside its value, and the names inside the
  elements of an array literal.
\<close>

fun all_keys :: "js_value \<Rightarrow> string list" where
  "all_keys (JString s) = []"
| "all_keys (JArray xs) = concat (map all_keys xs)"
| "all_keys (JObject ps) = concat (map (\<lambda>(k, v). k # all_keys v) ps)"

subsection \<open>Predicates on token values\<close>

text \<open>
  The hexadecimal colour pattern \<^verbatim>\<open>^#[0-9A-Fa-f]{6}$\<close>: a hash sign followed by
  exactly six hexadecimal digits and nothing else.
\<close>

definition hex_digit :: "char \<Rightarrow> bool" where
  "hex_digit c = (c \<in> set ''0123456789ABCDEFabcdef'')"

fun hex_color :: "string \<Rightarrow> bool" where
  "hex_color [] = False"
| "hex_color (c # cs) = (c = CHR ''#'' \<and> length cs = 6 \<and> list_all hex_digit cs)"

text \<open>
  Syntactic well-formedness of a glob pattern, read strictly. Wildcards (\<^verbatim>\<open>*\<close>,
  \<^verbatim>\<open>**\<close>, \<^verbatim>\<open>?\<close>), separators and commas may stand anywhere; a bracket class
  opened by \<^verbatim>\<open>[\<close> must be closed by \<^verbatim>\<open>]\<close>; brace alternations may nest, every
  \<^verbatim>\<open>{\<close> must be closed and no \<^verbatim>\<open>}\<close> may close a group that was not opened. The
  scanner carries whether it is inside a bracket class and how many brace groups are
  open. The empty string is not a pattern.
\<close>

fun glob_scan :: "bool \<Rightarrow> nat \<Rightarrow> string \<Rightarrow> bool" where
  "glob_scan b d [] = (\<not> b \<and> d = 0)"
| "glob_scan True d (c # cs) = glob_scan (c \<noteq> CHR '']'') d cs"
| "glob_scan False d (c # cs) =
     (if c = CHR ''['' then glob_scan True d cs
      else if c = CHR ''{'' then glob_scan False (Suc d) cs
      else if c = CHR ''}'' then 0 < d \<and> glob_scan False (d - 1) cs
      else glob_scan False d cs)"

definition valid_glob :: "string \<Rightarrow> bool" where
  "valid_glob s = (s \<noteq> [] \<and> glob_scan False 0 s)"

text \<open>
  The keyframe an animation shorthand refers to, for a shorthand that begins with the
  name as the one of the source does: the characters before the first space.
\<close>

definition keyframe_name :: "string \<Rightarrow> string" where
  "keyframe_name s = takeWhile (\<lambda>c. c \<noteq> CHR '' '') s"

section \<open>Properties of the descriptor\<close>

text \<open>
  C1: in \<^verbatim>\<open>theme.extend.boxShadow\<close> the name \<^verbatim>\<open>glow\<close> is the only property, and
  it reads as the string \<^verbatim>\<open>0 0 15px rgba(255, 93, 43, 0.3)\<close>, character for character.
\<close>

theorem boxShadow_glow_only:
  "keys_at [''theme'', ''extend'', ''boxShadow''] default_export = {''glow''} \<and>
   get_path [''theme'', ''extend'', ''boxShadow'', ''glow''] default_export =
     Some (JString ''0 0 15px rgba(255, 93, 43, 0.3)'')"
  by (simp add: default_export_def keys_at_def own_keys_def)

text \<open>
  C2: \<^verbatim>\<open>content\<close> is the array of exactly two strings, \<^verbatim>\<open>./index.html\<close> first and
  \<^verbatim>\<open>./src/**/*.{js,ts,jsx,tsx}\<close> second.
\<close>

theorem content_exact:
  "get_prop ''content'' default_export =
     Some (JArray [JString ''./index.html'', JString ''./src/**/*.{js,ts,jsx,tsx}''])"
  by (simp add: default_export_def)

text \<open>
  C3: \<^verbatim>\<open>theme.extend.colors\<close> has exactly the properties \<^verbatim>\<open>primary\<close>,
  \<^verbatim>\<open>secondary\<close> and \<^verbatim>\<open>background\<close>, which read as \<^verbatim>\<open>#FF5D2B\<close>, \<^verbatim>\<open>#FF5D2B\<close>
  and \<^verbatim>\<open>#171717\<close>.
\<close>

theorem colors_exact:
  "keys_at [''theme'', ''extend'', ''colors''] default_export =
     {''primary'', ''secondary'', ''background''} \<and>
   get_path [''theme'', ''extend'', ''colors'', ''primary''] default_export =
     Some (JString ''#FF5D2B'') \<and>
   get_path [''theme'', ''extend'', ''colors'', ''secondary''] default_export =
     Some (JString ''#FF5D2B'') \<and>
   get_path [''theme'', ''extend'', ''colors'', ''background''] default_export =
     Some (JString ''#171717'')"
  by (simp add: default_export_def keys_at_def own_keys_def)

text \<open>
  C4: in \<^verbatim>\<open>theme.extend.animation\<close> the name \<^verbatim>\<open>pulse-slow\<close> is the only property,
  and it reads as \<^verbatim>\<open>pulse 3s cubic-bezier(0.4, 0, 0.6, 1) infinite\<close>.
\<close>

theorem animation_pulse_slow_only:
  "keys_at [''theme'', ''extend'', ''animation''] default_export = {''pulse-slow''} \<and>
   get_path [''theme'', ''extend'', ''animation'', ''pulse-slow''] default_export =
     Some (JString ''pulse 3s cubic-bezier(0.4, 0, 0.6, 1) infinite'')"
  by (simp add: default_export_def keys_at_def own_keys_def)

text \<open>
  C5: \<^verbatim>\<open>plugins\<close> is the empty array.
\<close>

theorem plugins_empty:
  "get_prop ''plugins'' default_export = Some (JArray [])"
  by (simp add: default_export_def)

text \<open>
  C6: every property of \<^verbatim>\<open>theme.extend.colors\<close> reads as a string that matches the
  hexadecimal colour pattern. (The specification also admits a CSS colour function; no value
  needs that alternative.)
\<close>

theorem colors_are_hex:
  assumes "k \<in> keys_at [''theme'', ''extend'', ''colors''] default_export"
  shows "\<exists>s. get_path [''theme'', ''extend'', ''colors'', k] default_export = Some (JString s)
              \<and> hex_color s"
proof -
  from assms have "k \<in> {''primary'', ''secondary'', ''background''}"
    by (simp add: default_export_def keys_at_def own_keys_def)
  then show ?thesis
    by (auto simp: default_export_def hex_digit_def)
qed

theorem colors_are_hex_witness:
  "''background'' \<in> keys_at [''theme'', ''extend'', ''colors''] default_export \<and>
   (\<exists>s. get_path [''theme'', ''extend'', ''colors'', ''background''] default_export =
          Some (JString s) \<and> hex_color s)"
proof -
  have k: "''background'' \<in> keys_at [''theme'', ''extend'', ''colors''] default_export"
    by (simp add: default_export_def keys_at_def own_keys_def)
  from k colors_are_hex [OF k] show ?thesis by blast
qed

text \<open>
  C7: \<^verbatim>\<open>content\<close> is an array that is not empty, and each of its elements is a string
  that is a well-formed glob pattern.
\<close>

theorem content_nonempty_valid_globs:
  "\<exists>xs. get_prop ''content'' default_export = Some (JArray xs) \<and> xs \<noteq> [] \<and>
        (\<forall>x \<in> set xs. \<exists>s. x = JString s \<and> valid_glob s)"
  by (simp add: default_export_def valid_glob_def)

theorem content_nonempty_valid_globs_witness:
  "\<exists>xs. get_prop ''content'' default_export = Some (JArray xs) \<and>
        JString ''./src/**/*.{js,ts,jsx,tsx}'' \<in> set xs \<and>
        valid_glob ''./src/**/*.{js,ts,jsx,tsx}''"
proof -
  from content_nonempty_valid_globs obtain xs where
    xs: "get_prop ''content'' default_export = Some (JArray xs)" and
    gl: "\<forall>x \<in> set xs. \<exists>s. x = JString s \<and> valid_glob s"
    by blast
  from xs have mem: "JString ''./src/**/*.{js,ts,jsx,tsx}'' \<in> set xs"
    by (auto simp: default_export_def)
  with gl have "valid_glob ''./src/**/*.{js,ts,jsx,tsx}''"
    by blast
  with xs mem show ?thesis by blast
qed

text \<open>
  C8: the token categories of \<^verbatim>\<open>theme.extend\<close> are \<^verbatim>\<open>colors\<close>, \<^verbatim>\<open>boxShadow\<close> and
  \<^verbatim>\<open>animation\<close>, each is an object literal, and within each no token name is written
  twice.
\<close>

theorem token_names_distinct:
  "keys_at [''theme'', ''extend''] default_export =
     {''colors'', ''boxShadow'', ''animation''} \<and>
   (\<forall>c \<in> keys_at [''theme'', ''extend''] default_export.
      \<exists>ps. get_path [''theme'', ''extend'', c] default_export = Some (JObject ps) \<and>
           distinct (map fst ps))"
  by (simp add: default_export_def keys_at_def own_keys_def)

theorem token_names_distinct_witness:
  "''colors'' \<in> keys_at [''theme'', ''extend''] default_export \<and>
   (\<exists>ps. get_path [''theme'', ''extend'', ''colors''] default_export = Some (JObject ps) \<and>
         distinct (map fst ps))"
proof -
  have k: "''colors'' \<in> keys_at [''theme'', ''extend''] default_export"
    by (simp add: default_export_def keys_at_def own_keys_def)
  with token_names_distinct show ?thesis by blast
qed

text \<open>
  C10: \<^verbatim>\<open>theme\<close> has the one property \<^verbatim>\<open>extend\<close>, and \<^verbatim>\<open>theme.extend\<close> has exactly
  the properties \<^verbatim>\<open>colors\<close>, \<^verbatim>\<open>boxShadow\<close> and \<^verbatim>\<open>animation\<close>. No property named
  \<^verbatim>\<open>keyframes\<close> is written at any depth of the descriptor, and the keyframe that the
  \<^verbatim>\<open>pulse-slow\<close> animation names, \<^verbatim>\<open>pulse\<close>, is not a property name anywhere in it.
\<close>

theorem theme_extend_domain_no_keyframes:
  "keys_at [''theme''] default_export = {''extend''} \<and>
   keys_at [''theme'', ''extend''] default_export =
     {''colors'', ''boxShadow'', ''animation''} \<and>
   get_path [''theme'', ''extend'', ''keyframes''] default_export = None \<and>
   ''keyframes'' \<notin> set (all_keys default_export) \<and>
   (\<exists>a. get_path [''theme'', ''extend'', ''animation'', ''pulse-slow''] default_export =
          Some (JString a) \<and> keyframe_name a = ''pulse'') \<and>
   ''pulse'' \<notin> set (all_keys default_export)"
  by (simp add: default_export_def keys_at_def own_keys_def keyframe_name_def)

end
